theory Spec2Isabelle
  imports Complex_Main
begin

section \<open>Numbers and the JavaScript built-ins the scoring code calls\<close>

text \<open>
  The scoring model of the rewards estimator (\<^verbatim>\<open>scoringUtils.ts\<close> and
  \<^verbatim>\<open>services/geminiService.ts\<close>) computes with JavaScript numbers. They are modelled
  as mathematical reals: \<^verbatim>\<open>Math.log10\<close> is \<open>log 10\<close>, \<^verbatim>\<open>Math.log\<close> is \<open>ln\<close>,
  \<^verbatim>\<open>Math.exp\<close> is \<open>exp\<close>. The rounding error of IEEE-754 double arithmetic, and the values
  NaN and the infinities, are outside this model: every statement below is about the
  exact real value of the formula the code evaluates.
\<close>

definition Math_round :: "real \<Rightarrow> int" where
  \<comment> \<open>\<^verbatim>\<open>Math.round\<close>: the nearest integer, a tie going up.\<close>
  "Math_round x = \<lfloor>x + 1 / 2\<rfloor>"

definition Math_floor :: "real \<Rightarrow> int" where
  "Math_floor x = \<lfloor>x\<rfloor>"

definition Math_ceil :: "real \<Rightarrow> int" where
  "Math_ceil x = \<lceil>x\<rceil>"

definition toFixed_parsed :: "nat \<Rightarrow> real \<Rightarrow> real" where
  \<comment> \<open>\<^verbatim>\<open>parseFloat(x.toFixed(d))\<close>. \<^verbatim>\<open>toFixed\<close> works on the magnitude: it takes the integer
      \<open>n\<close> with \<open>n / 10^d\<close> nearest to it (of two such, the larger), and puts the sign back;
      from \<open>10^21\<close> on it prints the number itself.\<close>
  "toFixed_parsed d x =
     (if 10 ^ 21 \<le> \<bar>x\<bar> then x
      else if x < 0 then - (of_int \<lfloor>- x * 10 ^ d + 1 / 2\<rfloor> / 10 ^ d)
      else of_int \<lfloor>x * 10 ^ d + 1 / 2\<rfloor> / 10 ^ d)"

section \<open>scoringUtils: the score calculator and the reward mapper\<close>

record ScoreBreakdown =
  txScore :: real
  activeDaysScore :: real
  protocolScore :: real
  volumeScore :: real
  recencyScore :: real
  finalScore :: real

record mapping_point =
  score :: real
  pct :: real

definition POOL_SIZE :: real where
  "POOL_SIZE = 1000000000"

definition MAPPING_POINTS :: "mapping_point list" where
  "MAPPING_POINTS =
     [\<lparr>score = 0, pct = 0\<rparr>,
      \<lparr>score = 25 / 100, pct = 2 / 10000000\<rparr>,
      \<lparr>score = 50 / 100, pct = 15 / 10000000\<rparr>,
      \<lparr>score = 75 / 100, pct = 45 / 10000000\<rparr>,
      \<lparr>score = 1, pct = 120 / 10000000\<rparr>]"

definition computeScores :: "real \<Rightarrow> real \<Rightarrow> real \<Rightarrow> real \<Rightarrow> real option \<Rightarrow> ScoreBreakdown" where
  \<comment> \<open>The last parameter is optional in the source: \<open>None\<close> is the omitted argument,
      which takes the default 2.\<close>
  "computeScores txCount activeDays protocols volumeUSD recencyDaysArg =
     (let recencyDays = (case recencyDaysArg of None \<Rightarrow> 2 | Some r \<Rightarrow> r);
          txScore' = min (log 10 (txCount + 1) / 3) 1;
          activeDaysScore' = min (activeDays / 365) 1;
          protocolScore' = min (protocols / 8) 1;
          volumeScore' = min (log 10 (volumeUSD + 1) / (58 / 10)) 1;
          recencyScore' = (if recencyDays \<le> 7 then 1 else max 0 (1 - (recencyDays - 7) / 83));
          finalScore' =
            (txScore' * (35 / 100)) +
            (activeDaysScore' * (25 / 100)) +
            (protocolScore' * (20 / 100)) +
            (volumeScore' * (15 / 100)) +
            (recencyScore' * (5 / 100))
      in \<lparr>txScore = toFixed_parsed 2 txScore',
          activeDaysScore = toFixed_parsed 2 activeDaysScore',
          protocolScore = toFixed_parsed 2 protocolScore',
          volumeScore = toFixed_parsed 2 volumeScore',
          recencyScore = toFixed_parsed 2 recencyScore',
          finalScore = toFixed_parsed 3 finalScore'\<rparr>)"

function mapScoreToRewards_loop :: "real \<Rightarrow> nat \<Rightarrow> int" where
  "mapScoreToRewards_loop s i =
     (if i < length MAPPING_POINTS - 1 then
        (let p1 = MAPPING_POINTS ! i;
             p2 = MAPPING_POINTS ! (i + 1)
         in if s \<ge> score p1 \<and> s \<le> score p2 then
              (let t = (s - score p1) / (score p2 - score p1);
                   pct' = pct p1 + t * (pct p2 - pct p1)
               in Math_round (POOL_SIZE * pct'))
            else mapScoreToRewards_loop s (i + 1))
      else Math_round (POOL_SIZE * pct (MAPPING_POINTS ! (length MAPPING_POINTS - 1))))"
  by pat_completeness auto
termination
  by (relation "measure (\<lambda>(s, i). length MAPPING_POINTS - 1 - i)") auto

definition mapScoreToRewards :: "real \<Rightarrow> int" where
  "mapScoreToRewards s = (if s \<le> 0 then 0 else mapScoreToRewards_loop s 0)"

section \<open>geminiService: the statistics deriver\<close>

record DerivedStats =
  activeDays :: int
  volumeUSD :: int
  volumeMethod :: string
  protocols :: int
  recencyDays :: int

definition meaningfulTxCount :: "real \<Rightarrow> int" where
  "meaningfulTxCount rawTxCount = Math_floor (rawTxCount * (8 / 10))"

definition MAX_BASE_DAYS :: real where
  "MAX_BASE_DAYS = 560"

definition SATURATION_K :: real where
  "SATURATION_K = 12 / 10000"

definition estimatedActiveDays :: "real \<Rightarrow> int" where
  "estimatedActiveDays rawTxCount =
     (if rawTxCount > 0
      then Math_round (MAX_BASE_DAYS * (1 - exp (- rawTxCount * SATURATION_K)))
      else 0)"

definition volumeTier :: "real \<Rightarrow> real \<Rightarrow> real \<times> real \<times> string" where
  \<comment> \<open>The three assignments of the source, in its order: each later test that holds
      overwrites what an earlier one set.\<close>
  "volumeTier rawTxCount balance =
     (let baseOpValue = 15;
          tierLabel = ''Casual (~$15/op)'';
          (baseOpValue, tierLabel) =
            (if rawTxCount \<ge> 50 then (415 / 10, ''Regular (~$42/tx)'')
             else (baseOpValue, tierLabel));
          wealthMultiplier = 1;
          (wealthMultiplier, tierLabel) =
            (if balance > 5 / 10 then (25 / 10, ''Active (~$100/tx)'')
             else (wealthMultiplier, tierLabel));
          (wealthMultiplier, tierLabel) =
            (if balance > 5 then (12, ''Whale (~$500/tx)'')
             else (wealthMultiplier, tierLabel))
      in (baseOpValue, wealthMultiplier, tierLabel))"

definition deriveStats :: "real \<Rightarrow> real \<Rightarrow> DerivedStats" where
  "deriveStats rawTxCount balance =
     (let m = meaningfulTxCount rawTxCount;
          (baseOpValue, wealthMultiplier, tierLabel) = volumeTier rawTxCount balance;
          estimatedVolumeUSD = rawTxCount * baseOpValue * wealthMultiplier;
          estimatedProtocols =
            (if m = 0 then 0 else min (Math_ceil (ln (of_int m + 1) * (21 / 10))) 30);
          recencyDays' =
            (if m = 0 then 90
             else max 1 (Math_floor (30 / (ln (of_int m + 1) + 1 / 10))))
      in \<lparr>activeDays = estimatedActiveDays rawTxCount,
          volumeUSD = Math_round estimatedVolumeUSD,
          volumeMethod = tierLabel,
          protocols = estimatedProtocols,
          recencyDays = recencyDays'\<rparr>)"

section \<open>geminiService: the estimation orchestrator\<close>

text \<open>
  The two collaborators are outside the program; what the orchestrator sees of them is
  an outcome, and the model takes the outcome as its input. The wallet address only
  selects the outcome of the RPC calls, and the prompt only the outcome of the
  narrative call, so neither is a parameter here.
\<close>

datatype rpc_result =
    RpcError  \<comment> \<open>one of the two provider calls rejects\<close>
  | RpcData nat nat  \<comment> \<open>the balance in wei and the transaction count\<close>

record OnChainData =
  balance :: real
  txCount :: nat
  error :: "string option"

definition formatEther_parsed :: "nat \<Rightarrow> real" where
  \<comment> \<open>\<^verbatim>\<open>parseFloat(formatEther(balanceWei))\<close>: the amount in ether.\<close>
  "formatEther_parsed balanceWei = real balanceWei / 10 ^ 18"

definition getOnChainData :: "rpc_result \<Rightarrow> OnChainData" where
  "getOnChainData r =
     (case r of
        RpcData balanceWei n \<Rightarrow>
          \<lparr>balance = formatEther_parsed balanceWei, txCount = n, error = None\<rparr>
      | RpcError \<Rightarrow>
          \<lparr>balance = 0, txCount = 0, error = Some ''Could not fetch on-chain data''\<rparr>)"

datatype jsval =
    JUndefined
  | JNull
  | JBool bool
  | JNumber real
  | JString string
  | JArray "jsval list"
  | JObject "(string \<times> jsval) list"

fun get_property :: "jsval \<Rightarrow> string \<Rightarrow> jsval option" where
  \<comment> \<open>Reading \<^verbatim>\<open>v.explanation\<close> or \<^verbatim>\<open>v.suggestions\<close>: a TypeError (\<open>None\<close>) on
      \<^verbatim>\<open>null\<close> and \<^verbatim>\<open>undefined\<close>, the member of an object, and \<^verbatim>\<open>undefined\<close> on
      every other value, none of which has a property of either name.\<close>
  "get_property JUndefined k = None"
| "get_property JNull k = None"
| "get_property (JObject kvs) k =
     Some (case map_of kvs k of None \<Rightarrow> JUndefined | Some v \<Rightarrow> v)"
| "get_property v k = Some JUndefined"

datatype narrative_result =
    GenerateFails  \<comment> \<open>\<^verbatim>\<open>generateContent\<close> rejects\<close>
  | TextEmpty  \<comment> \<open>it resolves and \<^verbatim>\<open>response.text\<close> is undefined or empty\<close>
  | TextUnparsable  \<comment> \<open>\<^verbatim>\<open>response.text\<close> is not JSON: \<^verbatim>\<open>JSON.parse\<close> throws\<close>
  | TextParsed jsval  \<comment> \<open>\<^verbatim>\<open>JSON.parse(response.text)\<close> returns this value\<close>

definition digit_char :: "nat \<Rightarrow> char" where
  "digit_char n = ''0123456789'' ! n"

function decimal :: "nat \<Rightarrow> string" where
  "decimal n =
     (if n < 10 then [digit_char n]
      else decimal (n div 10) @ [digit_char (n mod 10)])"
  by pat_completeness auto
termination
  by (relation "measure id") auto

definition toFixed :: "nat \<Rightarrow> real \<Rightarrow> string option" where
  \<comment> \<open>\<^verbatim>\<open>x.toFixed(d)\<close> as text, for \<open>d > 0\<close>. From \<open>10^21\<close> on JavaScript prints the
      number in exponent notation, digits that this model does not have: \<open>None\<close>.\<close>
  "toFixed d x =
     (if 10 ^ 21 \<le> \<bar>x\<bar> then None
      else
        (let n = nat \<lfloor>\<bar>x\<bar> * 10 ^ d + 1 / 2\<rfloor>
         in Some ((if x < 0 then [CHR ''-''] else []) @ decimal (n div 10 ^ d) @ [CHR ''.''] @
                  map (\<lambda>i. digit_char ((n div 10 ^ (d - 1 - i)) mod 10)) [0..<d])))"

record Stats =
  stats_balance :: "string option"
  stats_txCount :: nat
  stats_activeDays :: int
  stats_volumeUSD :: int
  stats_volumeMethod :: string
  stats_protocols :: int

record EstimationResult =
  activityScore :: real
  estimatedRewards :: int
  stats :: Stats
  scoreBreakdown :: ScoreBreakdown
  explanation :: jsval
  suggestions :: jsval

definition emptyTextDefault :: jsval where
  \<comment> \<open>The object the source uses in place of the parsed text when there is no text.\<close>
  "emptyTextDefault =
     JObject
       [(''explanation'', JString ''Analysis complete based on your on-chain activity pattern.''),
        (''suggestions'',
           JArray [JString ''Maintain weekly activity'',
                   JString ''Try Aerodrome or Moonwell'',
                   JString ''Increase transaction volume''])]"

definition getRewardEstimate :: "rpc_result \<Rightarrow> narrative_result \<Rightarrow> EstimationResult" where
  "getRewardEstimate rpc narrative =
     (let realData = getOnChainData rpc;
          derivedStats = deriveStats (real (txCount realData)) (balance realData);
          scores =
            computeScores
              (real (txCount realData))
              (of_int (activeDays derivedStats))
              (of_int (protocols derivedStats))
              (of_int (volumeUSD derivedStats))
              (Some (of_int (recencyDays derivedStats)));
          rewards = mapScoreToRewards (finalScore scores);
          stats' =
            \<lparr>stats_balance = toFixed 4 (balance realData),
             stats_txCount = txCount realData,
             stats_activeDays = activeDays derivedStats,
             stats_volumeUSD = volumeUSD derivedStats,
             stats_volumeMethod = volumeMethod derivedStats,
             stats_protocols = protocols derivedStats\<rparr>;
          aiText =
            (case narrative of
               GenerateFails \<Rightarrow> None
             | TextEmpty \<Rightarrow> Some emptyTextDefault
             | TextUnparsable \<Rightarrow> None
             | TextParsed v \<Rightarrow> Some v);
          tried =
            (case aiText of
               None \<Rightarrow> None
             | Some a \<Rightarrow>
                 (case get_property a ''explanation'' of
                    None \<Rightarrow> None
                  | Some e \<Rightarrow>
                      (case get_property a ''suggestions'' of
                         None \<Rightarrow> None
                       | Some sg \<Rightarrow>
                           Some \<lparr>activityScore = finalScore scores,
                                 estimatedRewards = rewards,
                                 stats = stats',
                                 scoreBreakdown = scores,
                                 explanation = e,
                                 suggestions = sg\<rparr>)))
      in case tried of
           Some result \<Rightarrow> result
         | None \<Rightarrow>
             \<lparr>activityScore = finalScore scores,
              estimatedRewards = rewards,
              stats = stats',
              scoreBreakdown = scores,
              explanation = JString ''We calculated your score based on your wallet activity pattern.'',
              suggestions =
                JArray [JString ''Interact with more protocols'',
                        JString ''Increase transaction volume'',
                        JString ''Maintain monthly activity'']\<rparr>)"

section \<open>The reward mapper as the specification words it\<close>

definition spec_first_pair :: "real \<Rightarrow> (mapping_point \<times> mapping_point) option" where
  \<comment> \<open>The first consecutive pair of control points whose scores enclose \<open>s\<close>.\<close>
  "spec_first_pair s =
     find (\<lambda>(p1, p2). score p1 \<le> s \<and> s \<le> score p2)
       (zip MAPPING_POINTS (tl MAPPING_POINTS))"

definition spec_mapScoreToRewards :: "real \<Rightarrow> int" where
  "spec_mapScoreToRewards s =
     (if s \<le> 0 then 0
      else case spec_first_pair s of
             Some (p1, p2) \<Rightarrow>
               round (POOL_SIZE *
                 (pct p1 + (s - score p1) / (score p2 - score p1) * (pct p2 - pct p1)))
           | None \<Rightarrow> round (POOL_SIZE * pct (last MAPPING_POINTS)))"

section \<open>Rounding lemmas\<close>

lemma Math_round_mono: "x \<le> y \<Longrightarrow> Math_round x \<le> Math_round y"
  unfolding Math_round_def by (simp add: floor_mono)

lemma toFixed_parsed_unit:
  assumes "0 \<le> x" "x \<le> 1"
  shows "toFixed_parsed d x = of_int (round (x * 10 ^ d)) / 10 ^ d"
proof -
  have "\<bar>x\<bar> < 10 ^ 21" using assms by simp
  then show ?thesis using assms by (simp add: toFixed_parsed_def round_def)
qed

lemma toFixed_parsed_error:
  assumes "0 \<le> x" "x \<le> 1"
  shows "\<bar>toFixed_parsed d x - x\<bar> \<le> 1 / (2 * 10 ^ d)"
proof -
  define k :: real where "k = 10 ^ d"
  define y :: real where "y = of_int (round (x * k))"
  have k: "0 < k" by (simp add: k_def)
  have h: "\<bar>y - x * k\<bar> \<le> 1 / 2" unfolding y_def by (rule of_int_round_abs_le)
  have "\<bar>y - x * k\<bar> / k \<le> (1 / 2) / k"
    by (rule divide_right_mono) (use h k in simp_all)
  moreover have "y / k - x = (y - x * k) / k" using k by (simp add: field_simps)
  then have "\<bar>y / k - x\<bar> = \<bar>y - x * k\<bar> / k" using k by (simp add: abs_divide)
  ultimately have "\<bar>y / k - x\<bar> \<le> 1 / (2 * k)" by simp
  then show ?thesis using toFixed_parsed_unit[OF assms, of d] by (simp add: y_def k_def)
qed

lemma toFixed_parsed_range:
  assumes "0 \<le> x" "x \<le> 1"
  shows "0 \<le> toFixed_parsed d x \<and> toFixed_parsed d x \<le> 1"
proof -
  have a: "0 \<le> round (x * 10 ^ d)" using assms by (simp add: round_def)
  have "x * 10 ^ d \<le> 10 ^ d" using assms by simp
  then have "round (x * 10 ^ d) \<le> round ((10::real) ^ d)" by (rule round_mono)
  also have "round ((10::real) ^ d) = 10 ^ d"
    using round_of_int[of "10 ^ d"] by simp
  finally have b: "(of_int (round (x * 10 ^ d)) :: real) \<le> 10 ^ d"
    by (metis of_int_le_iff of_int_numeral of_int_power)
  show ?thesis using a b by (simp add: toFixed_parsed_unit[OF assms])
qed

section \<open>The score calculator\<close>

text \<open>
  C1. For a non-negative integer \<open>txCount\<close> and non-negative reals \<open>activeDays\<close>,
  \<open>protocols\<close>, \<open>volumeUSD\<close>, \<open>computeScores\<close> returns the five sub-scores of the
  specification, each rounded to 2 decimal places, and a \<open>finalScore\<close> that is the
  weighted sum of the unrounded sub-scores, rounded to 3 decimal places; an omitted
  \<open>recencyDays\<close> counts as 2. The formula holds for every \<open>recencyDays\<close> given, the
  positive ones of the claim among them.
\<close>

theorem computeScores_formulas:
  assumes "0 \<le> a" "0 \<le> p" "0 \<le> v"
  shows "computeScores (real n) a p v (Some r) =
     \<lparr>txScore = of_int (round (min (log 10 (real n + 1) / 3) 1 * 100)) / 100,
      activeDaysScore = of_int (round (min (a / 365) 1 * 100)) / 100,
      protocolScore = of_int (round (min (p / 8) 1 * 100)) / 100,
      volumeScore = of_int (round (min (log 10 (v + 1) / (58 / 10)) 1 * 100)) / 100,
      recencyScore =
        of_int (round ((if r \<le> 7 then 1 else max 0 (1 - (r - 7) / 83)) * 100)) / 100,
      finalScore = of_int (round
        ((35 / 100 * min (log 10 (real n + 1) / 3) 1
          + 25 / 100 * min (a / 365) 1
          + 20 / 100 * min (p / 8) 1
          + 15 / 100 * min (log 10 (v + 1) / (58 / 10)) 1
          + 5 / 100 * (if r \<le> 7 then 1 else max 0 (1 - (r - 7) / 83))) * 1000)) / 1000\<rparr>
   \<and> computeScores (real n) a p v None = computeScores (real n) a p v (Some 2)"
proof -
  define s1 where "s1 = min (log 10 (real n + 1) / 3) 1"
  define s2 where "s2 = min (a / 365) 1"
  define s3 where "s3 = min (p / 8) 1"
  define s4 where "s4 = min (log 10 (v + 1) / (58 / 10)) 1"
  define s5 :: real where "s5 = (if r \<le> 7 then 1 else max 0 (1 - (r - 7) / 83))"
  define f where
    "f = s1 * (35 / 100) + s2 * (25 / 100) + s3 * (20 / 100) + s4 * (15 / 100) + s5 * (5 / 100)"
  have u1: "0 \<le> s1" "s1 \<le> 1" unfolding s1_def by simp_all
  have u2: "0 \<le> s2" "s2 \<le> 1" unfolding s2_def using assms by simp_all
  have u3: "0 \<le> s3" "s3 \<le> 1" unfolding s3_def using assms by simp_all
  have u4: "0 \<le> s4" "s4 \<le> 1" unfolding s4_def using assms by simp_all
  have u5: "0 \<le> s5" "s5 \<le> 1" unfolding s5_def by auto
  have uf: "0 \<le> f" "f \<le> 1" unfolding f_def using u1 u2 u3 u4 u5 by simp_all
  have "computeScores (real n) a p v (Some r) =
     \<lparr>txScore = toFixed_parsed 2 s1, activeDaysScore = toFixed_parsed 2 s2,
      protocolScore = toFixed_parsed 2 s3, volumeScore = toFixed_parsed 2 s4,
      recencyScore = toFixed_parsed 2 s5, finalScore = toFixed_parsed 3 f\<rparr>"
    by (simp add: computeScores_def Let_def s1_def s2_def s3_def s4_def s5_def f_def)
  then have "computeScores (real n) a p v (Some r) =
     \<lparr>txScore = of_int (round (s1 * 100)) / 100,
      activeDaysScore = of_int (round (s2 * 100)) / 100,
      protocolScore = of_int (round (s3 * 100)) / 100,
      volumeScore = of_int (round (s4 * 100)) / 100,
      recencyScore = of_int (round (s5 * 100)) / 100,
      finalScore = of_int (round (f * 1000)) / 1000\<rparr>"
    using toFixed_parsed_unit[OF u1, of 2] toFixed_parsed_unit[OF u2, of 2]
      toFixed_parsed_unit[OF u3, of 2] toFixed_parsed_unit[OF u4, of 2]
      toFixed_parsed_unit[OF u5, of 2] toFixed_parsed_unit[OF uf, of 3] by simp
  moreover have "f = 35 / 100 * s1 + 25 / 100 * s2 + 20 / 100 * s3 + 15 / 100 * s4 + 5 / 100 * s5"
    unfolding f_def by simp
  moreover have "computeScores (real n) a p v None = computeScores (real n) a p v (Some 2)"
    by (simp add: computeScores_def)
  ultimately show ?thesis
    unfolding s1_def s2_def s3_def s4_def s5_def by simp
qed

theorem computeScores_formulas_witness:
  "computeScores (real 0) 730 4 0 (Some 7) =
     \<lparr>txScore = 0, activeDaysScore = 1, protocolScore = 1 / 2, volumeScore = 0,
      recencyScore = 1, finalScore = 2 / 5\<rparr>
   \<and> computeScores (real 0) 730 4 0 None = computeScores (real 0) 730 4 0 (Some 2)"
  using computeScores_formulas [of 730 4 0 0 7] by (simp add: round_def)

text \<open>
  C4. The claim fails as stated: the returned fields are rounded one by one after the sum is
  taken, so the returned \<open>finalScore\<close> need not be the weighted sum of the returned
  sub-scores. With one active day and nothing else the sub-scores all print as 0, and
  \<open>finalScore\<close> as 0.001.
\<close>

theorem finalScore_invariant_counterexample:
  "finalScore (computeScores 0 1 0 0 (Some 90)) \<noteq>
     35 / 100 * txScore (computeScores 0 1 0 0 (Some 90))
     + 25 / 100 * activeDaysScore (computeScores 0 1 0 0 (Some 90))
     + 20 / 100 * protocolScore (computeScores 0 1 0 0 (Some 90))
     + 15 / 100 * volumeScore (computeScores 0 1 0 0 (Some 90))
     + 5 / 100 * recencyScore (computeScores 0 1 0 0 (Some 90))"
  by (simp add: computeScores_def toFixed_parsed_def Let_def)

text \<open>
  C4, amended. For non-negative inputs the returned \<open>finalScore\<close> lies in \<open>[0, 1]\<close> and
  agrees with the weighted sum of the returned sub-scores up to the rounding of the
  fields: the two differ by at most 0.0055.
\<close>

theorem finalScore_invariant_up_to_rounding:
  assumes "0 \<le> t" "0 \<le> a" "0 \<le> p" "0 \<le> v"
  shows "\<bar>finalScore (computeScores t a p v rd)
          - (35 / 100 * txScore (computeScores t a p v rd)
             + 25 / 100 * activeDaysScore (computeScores t a p v rd)
             + 20 / 100 * protocolScore (computeScores t a p v rd)
             + 15 / 100 * volumeScore (computeScores t a p v rd)
             + 5 / 100 * recencyScore (computeScores t a p v rd))\<bar> \<le> 55 / 10000
     \<and> 0 \<le> finalScore (computeScores t a p v rd)
     \<and> finalScore (computeScores t a p v rd) \<le> 1"
proof -
  define r :: real where "r = (case rd of None \<Rightarrow> 2 | Some r \<Rightarrow> r)"
  define s1 where "s1 = min (log 10 (t + 1) / 3) 1"
  define s2 where "s2 = min (a / 365) 1"
  define s3 where "s3 = min (p / 8) 1"
  define s4 where "s4 = min (log 10 (v + 1) / (58 / 10)) 1"
  define s5 :: real where "s5 = (if r \<le> 7 then 1 else max 0 (1 - (r - 7) / 83))"
  define f where
    "f = s1 * (35 / 100) + s2 * (25 / 100) + s3 * (20 / 100) + s4 * (15 / 100) + s5 * (5 / 100)"
  have u1: "0 \<le> s1" "s1 \<le> 1" unfolding s1_def using assms by simp_all
  have u2: "0 \<le> s2" "s2 \<le> 1" unfolding s2_def using assms by simp_all
  have u3: "0 \<le> s3" "s3 \<le> 1" unfolding s3_def using assms by simp_all
  have u4: "0 \<le> s4" "s4 \<le> 1" unfolding s4_def using assms by simp_all
  have u5: "0 \<le> s5" "s5 \<le> 1" unfolding s5_def by auto
  have uf: "0 \<le> f" "f \<le> 1" unfolding f_def using u1 u2 u3 u4 u5 by simp_all
  have cs: "computeScores t a p v rd =
     \<lparr>txScore = toFixed_parsed 2 s1, activeDaysScore = toFixed_parsed 2 s2,
      protocolScore = toFixed_parsed 2 s3, volumeScore = toFixed_parsed 2 s4,
      recencyScore = toFixed_parsed 2 s5, finalScore = toFixed_parsed 3 f\<rparr>"
    by (simp add: computeScores_def Let_def s1_def s2_def s3_def s4_def s5_def f_def r_def)
  have e1: "\<bar>toFixed_parsed 2 s1 - s1\<bar> \<le> 1 / 200"
    using toFixed_parsed_error[OF u1, of 2] by simp
  have e2: "\<bar>toFixed_parsed 2 s2 - s2\<bar> \<le> 1 / 200"
    using toFixed_parsed_error[OF u2, of 2] by simp
  have e3: "\<bar>toFixed_parsed 2 s3 - s3\<bar> \<le> 1 / 200"
    using toFixed_parsed_error[OF u3, of 2] by simp
  have e4: "\<bar>toFixed_parsed 2 s4 - s4\<bar> \<le> 1 / 200"
    using toFixed_parsed_error[OF u4, of 2] by simp
  have e5: "\<bar>toFixed_parsed 2 s5 - s5\<bar> \<le> 1 / 200"
    using toFixed_parsed_error[OF u5, of 2] by simp
  have ef: "\<bar>toFixed_parsed 3 f - f\<bar> \<le> 1 / 2000"
    using toFixed_parsed_error[OF uf, of 3] by simp
  have bound: "\<bar>toFixed_parsed 3 f
          - (35 / 100 * toFixed_parsed 2 s1 + 25 / 100 * toFixed_parsed 2 s2
             + 20 / 100 * toFixed_parsed 2 s3 + 15 / 100 * toFixed_parsed 2 s4
             + 5 / 100 * toFixed_parsed 2 s5)\<bar> \<le> 55 / 10000"
    using e1 e2 e3 e4 e5 ef unfolding f_def by linarith
  show ?thesis
    unfolding cs using bound toFixed_parsed_range[OF uf, of 3] by simp
qed

theorem finalScore_invariant_up_to_rounding_witness:
  "\<bar>finalScore (computeScores 0 1 0 0 (Some 90))
          - (35 / 100 * txScore (computeScores 0 1 0 0 (Some 90))
             + 25 / 100 * activeDaysScore (computeScores 0 1 0 0 (Some 90))
             + 20 / 100 * protocolScore (computeScores 0 1 0 0 (Some 90))
             + 15 / 100 * volumeScore (computeScores 0 1 0 0 (Some 90))
             + 5 / 100 * recencyScore (computeScores 0 1 0 0 (Some 90)))\<bar> \<le> 55 / 10000
     \<and> 0 \<le> finalScore (computeScores 0 1 0 0 (Some 90))
     \<and> finalScore (computeScores 0 1 0 0 (Some 90)) \<le> 1"
  using finalScore_invariant_up_to_rounding [of 0 1 0 0 "Some 90"] by simp

section \<open>The reward mapper\<close>

lemma mapScoreToRewards_loop_explicit:
  "mapScoreToRewards_loop s 0 =
     (if 0 \<le> s \<and> s \<le> 1 / 4 then Math_round (800 * s)
      else if 1 / 4 \<le> s \<and> s \<le> 1 / 2 then Math_round (200 + 5200 * (s - 1 / 4))
      else if 1 / 2 \<le> s \<and> s \<le> 3 / 4 then Math_round (1500 + 12000 * (s - 1 / 2))
      else if 3 / 4 \<le> s \<and> s \<le> 1 then Math_round (4500 + 30000 * (s - 3 / 4))
      else 12000)"
  by (simp add: MAPPING_POINTS_def POOL_SIZE_def Math_round_def Let_def algebra_simps)

lemma spec_mapScoreToRewards_explicit:
  "spec_mapScoreToRewards s =
     (if s \<le> 0 then 0 else
      if 0 \<le> s \<and> s \<le> 1 / 4 then Math_round (800 * s)
      else if 1 / 4 \<le> s \<and> s \<le> 1 / 2 then Math_round (200 + 5200 * (s - 1 / 4))
      else if 1 / 2 \<le> s \<and> s \<le> 3 / 4 then Math_round (1500 + 12000 * (s - 1 / 2))
      else if 3 / 4 \<le> s \<and> s \<le> 1 then Math_round (4500 + 30000 * (s - 3 / 4))
      else 12000)"
  by (simp add: spec_mapScoreToRewards_def spec_first_pair_def MAPPING_POINTS_def
      POOL_SIZE_def Math_round_def round_def Let_def algebra_simps)

lemma reward_curve_mono:
  fixes a b :: real
  assumes "0 \<le> a" "a \<le> b" "b \<le> 1"
  shows "(if a \<le> 1 / 4 then 800 * a
          else if a \<le> 1 / 2 then 200 + 5200 * (a - 1 / 4)
          else if a \<le> 3 / 4 then 1500 + 12000 * (a - 1 / 2)
          else 4500 + 30000 * (a - 3 / 4))
       \<le> (if b \<le> 1 / 4 then 800 * b
          else if b \<le> 1 / 2 then 200 + 5200 * (b - 1 / 4)
          else if b \<le> 3 / 4 then 1500 + 12000 * (b - 1 / 2)
          else 4500 + 30000 * (b - 3 / 4))"
  using assms by (simp split: if_splits)

lemma mapScoreToRewards_curve:
  assumes "0 \<le> s" "s \<le> 1"
  shows "mapScoreToRewards s =
     Math_round (if s \<le> 1 / 4 then 800 * s
          else if s \<le> 1 / 2 then 200 + 5200 * (s - 1 / 4)
          else if s \<le> 3 / 4 then 1500 + 12000 * (s - 1 / 2)
          else 4500 + 30000 * (s - 3 / 4))"
  using assms unfolding mapScoreToRewards_def mapScoreToRewards_loop_explicit
  by (auto simp: Math_round_def)

lemma mapScoreToRewards_nonneg: "0 \<le> mapScoreToRewards s"
  unfolding mapScoreToRewards_def mapScoreToRewards_loop_explicit
  by (auto simp: Math_round_def)

text \<open>
  C2. \<open>mapScoreToRewards\<close> returns 0 for a score of at most 0; otherwise it is the
  algorithm of the specification: the first consecutive pair of control points that
  encloses the score, linear interpolation between them, and \<open>round (POOL_SIZE * pct)\<close>.
  A score above 1 matches no pair and gets the last control point's 12000. The three
  values of the claim: 0 at 0, 1500 at 0.5, 12000 at 1.
\<close>

theorem mapScoreToRewards_interpolates:
  "mapScoreToRewards s = spec_mapScoreToRewards s
   \<and> (s \<le> 0 \<longrightarrow> mapScoreToRewards s = 0)
   \<and> (1 < s \<longrightarrow> spec_first_pair s = None \<and> mapScoreToRewards s = 12000)
   \<and> mapScoreToRewards 0 = 0
   \<and> mapScoreToRewards (1 / 2) = 1500
   \<and> mapScoreToRewards 1 = 12000"
proof -
  have a: "mapScoreToRewards s = spec_mapScoreToRewards s"
    unfolding mapScoreToRewards_def mapScoreToRewards_loop_explicit
      spec_mapScoreToRewards_explicit by simp
  have b: "1 < s \<Longrightarrow> spec_first_pair s = None"
    by (simp add: spec_first_pair_def MAPPING_POINTS_def)
  have c: "1 < s \<Longrightarrow> mapScoreToRewards s = 12000"
    unfolding mapScoreToRewards_def mapScoreToRewards_loop_explicit by simp
  have d: "mapScoreToRewards 0 = 0" "mapScoreToRewards (1 / 2) = 1500"
    "mapScoreToRewards 1 = 12000"
    unfolding mapScoreToRewards_def mapScoreToRewards_loop_explicit
    by (simp_all add: Math_round_def)
  show ?thesis using a b c d by (simp add: mapScoreToRewards_def)
qed

theorem mapScoreToRewards_interpolates_witness:
  "mapScoreToRewards 2 = spec_mapScoreToRewards 2
   \<and> spec_first_pair 2 = None \<and> mapScoreToRewards 2 = 12000
   \<and> mapScoreToRewards (- 1) = 0"
  using mapScoreToRewards_interpolates [of 2] mapScoreToRewards_interpolates [of "- 1"]
  by simp

text \<open>
  C3. On \<open>[0, 1]\<close> the reward does not decrease when the score grows, and the reward is
  a non-negative integer for every score.
\<close>

theorem mapScoreToRewards_monotone:
  "(0 \<le> s1 \<and> s1 < s2 \<and> s2 \<le> 1 \<longrightarrow> mapScoreToRewards s1 \<le> mapScoreToRewards s2)
   \<and> 0 \<le> mapScoreToRewards s"
proof -
  have "mapScoreToRewards s1 \<le> mapScoreToRewards s2" if h: "0 \<le> s1" "s1 < s2" "s2 \<le> 1"
  proof -
    have r: "0 \<le> s1" "s1 \<le> s2" "s2 \<le> 1" "s1 \<le> 1" "0 \<le> s2" using h by simp_all
    show ?thesis
      unfolding mapScoreToRewards_curve[OF r(1) r(4)] mapScoreToRewards_curve[OF r(5) r(3)]
      by (rule Math_round_mono) (rule reward_curve_mono[OF r(1) r(2) r(3)])
  qed
  then show ?thesis using mapScoreToRewards_nonneg by simp
qed

theorem mapScoreToRewards_monotone_witness:
  "mapScoreToRewards (1 / 4) \<le> mapScoreToRewards (3 / 5) \<and> 0 \<le> mapScoreToRewards (3 / 5)"
  using mapScoreToRewards_monotone [of "1 / 4" "3 / 5" "3 / 5"] by simp

section \<open>The statistics deriver\<close>

lemma volumeTier_cases:
  "volumeTier n b =
     ((if n < 50 then 15 else 415 / 10),
      (if b > 5 then 12 else if b > 5 / 10 then 25 / 10 else 1),
      (if b > 5 then ''Whale (~$500/tx)''
       else if b > 5 / 10 then ''Active (~$100/tx)''
       else if n \<ge> 50 then ''Regular (~$42/tx)''
       else ''Casual (~$15/op)''))"
  by (simp add: volumeTier_def Let_def)

lemma activeDays_deriveStats: "activeDays (deriveStats n b) = estimatedActiveDays n"
  by (simp add: deriveStats_def Let_def split: prod.splits)

text \<open>
  C5. The volume is \<open>round (txCount * baseOpValue * wealthMultiplier)\<close> over the raw
  transaction count, with 15 per operation below 50 transactions and 41.5 from 50 on,
  and a multiplier of 12 above a balance of 5, else 2.5 above 0.5, else 1; the label
  is that of the last tier that matched. \<open>deriveStats(1000, 6.0)\<close> is a whale with
  volume 498000, and no transactions give volume 0 whatever the balance.
\<close>

theorem deriveStats_volume:
  "volumeUSD (deriveStats (real n) b) =
     round (real n * (if n < 50 then 15 else 415 / 10)
                  * (if b > 5 then 12 else if b > 5 / 10 then 25 / 10 else 1))
   \<and> volumeMethod (deriveStats (real n) b) =
     (if b > 5 then ''Whale (~$500/tx)''
       else if b > 5 / 10 then ''Active (~$100/tx)''
       else if n \<ge> 50 then ''Regular (~$42/tx)''
       else ''Casual (~$15/op)'')
   \<and> volumeMethod (deriveStats 1000 6) = ''Whale (~$500/tx)''
   \<and> volumeUSD (deriveStats 1000 6) = 498000
   \<and> volumeUSD (deriveStats 0 b) = 0"
proof -
  have vol: "volumeUSD (deriveStats x c) =
      round (x * fst (volumeTier x c) * fst (snd (volumeTier x c)))" for x c
    by (simp add: deriveStats_def Math_round_def round_def Let_def split: prod.splits)
  have lab: "volumeMethod (deriveStats x c) = snd (snd (volumeTier x c))" for x c
    by (simp add: deriveStats_def Let_def split: prod.splits)
  have whale: "volumeTier 1000 6 = (415 / 10, 12, ''Whale (~$500/tx)'')"
    by (simp add: volumeTier_cases)
  have "volumeUSD (deriveStats 1000 6) = 498000"
    unfolding vol whale by (simp add: round_def)
  moreover have "volumeUSD (deriveStats 0 b) = 0"
    unfolding vol by simp
  ultimately show ?thesis
    unfolding vol lab by (simp add: volumeTier_cases)
qed

lemma saturation_range:
  assumes "0 \<le> x"
  shows "0 \<le> MAX_BASE_DAYS * (1 - exp (- x * SATURATION_K))"
    and "MAX_BASE_DAYS * (1 - exp (- x * SATURATION_K)) < 560"
proof -
  have "- x * SATURATION_K \<le> 0" using assms by (simp add: SATURATION_K_def)
  then have "exp (- x * SATURATION_K) \<le> 1" by (simp only: exp_le_one_iff)
  then show "0 \<le> MAX_BASE_DAYS * (1 - exp (- x * SATURATION_K))"
    by (simp add: MAX_BASE_DAYS_def)
  have "0 < exp (- x * SATURATION_K)" by (rule exp_gt_zero)
  then show "MAX_BASE_DAYS * (1 - exp (- x * SATURATION_K)) < 560"
    by (simp add: MAX_BASE_DAYS_def)
qed

lemma estimatedActiveDays_range:
  "0 \<le> estimatedActiveDays x \<and> estimatedActiveDays x \<le> 560"
proof (cases "0 < x")
  case True
  then have x: "0 \<le> x" by simp
  let ?y = "MAX_BASE_DAYS * (1 - exp (- x * SATURATION_K))"
  have "0 \<le> ?y" "?y < 560" using saturation_range[OF x] by simp_all
  then have "0 \<le> \<lfloor>?y + 1 / 2\<rfloor>" "\<lfloor>?y + 1 / 2\<rfloor> \<le> 560"
    by (simp_all add: floor_le_iff le_floor_iff)
  with True show ?thesis by (simp add: estimatedActiveDays_def Math_round_def)
next
  case False
  then show ?thesis by (simp add: estimatedActiveDays_def)
qed

lemma estimatedActiveDays_mono:
  assumes "x \<le> y"
  shows "estimatedActiveDays x \<le> estimatedActiveDays y"
proof (cases "0 < x")
  case True
  with assms have y: "0 < y" by simp
  have "- y * SATURATION_K \<le> - x * SATURATION_K"
    using assms by (simp add: SATURATION_K_def)
  then have "exp (- y * SATURATION_K) \<le> exp (- x * SATURATION_K)"
    by (simp only: exp_le_cancel_iff)
  then have "MAX_BASE_DAYS * (1 - exp (- x * SATURATION_K))
      \<le> MAX_BASE_DAYS * (1 - exp (- y * SATURATION_K))"
    by (simp add: MAX_BASE_DAYS_def)
  then show ?thesis using True y by (simp add: estimatedActiveDays_def Math_round_mono)
next
  case False
  then have "estimatedActiveDays x = 0" by (simp add: estimatedActiveDays_def)
  then show ?thesis using estimatedActiveDays_range[of y] by simp
qed

text \<open>
  C6. \<open>activeDays\<close> is 0 without transactions and
  \<open>round (560 * (1 - e^(-txCount * 0.0012)))\<close> otherwise; it does not decrease when the
  transaction count grows (whatever the balances), and it stays within \<open>[0, 560]\<close>.
\<close>

theorem deriveStats_activeDays:
  "activeDays (deriveStats 0 b) = 0
   \<and> (0 < n \<longrightarrow>
        activeDays (deriveStats (real n) b) =
          round (560 * (1 - exp (- real n * (12 / 10000)))))
   \<and> (t1 \<le> t2 \<longrightarrow>
        activeDays (deriveStats (real t1) b) \<le> activeDays (deriveStats (real t2) b'))
   \<and> 0 \<le> activeDays (deriveStats (real n) b)
   \<and> activeDays (deriveStats (real n) b) \<le> 560"
  using estimatedActiveDays_range[of "real n"]
    estimatedActiveDays_mono[of "real t1" "real t2"]
  by (simp add: activeDays_deriveStats)
     (simp add: estimatedActiveDays_def Math_round_def round_def MAX_BASE_DAYS_def
        SATURATION_K_def)

theorem deriveStats_activeDays_witness:
  "activeDays (deriveStats (real 3) 0) = round (560 * (1 - exp (- real 3 * (12 / 10000))))
   \<and> activeDays (deriveStats (real 3) 0) \<le> activeDays (deriveStats (real 7) 1)"
  using deriveStats_activeDays [of 0 3 3 7 1] by simp

lemma exp_2_le: "exp (2::real) \<le> 9"
proof -
  have "exp (2::real) = exp 1 * exp 1" by (simp flip: exp_add)
  also have "\<dots> \<le> 3 * 3" by (intro mult_mono exp_le) simp_all
  finally show ?thesis by simp
qed

lemma exp_144_bounds:
  "2369 / 10000 < exp (- (36 / 25) :: real) \<and> exp (- (36 / 25) :: real) < 2371 / 10000"
proof -
  obtain t :: real where t: "\<bar>t\<bar> \<le> \<bar>- (36 / 25)\<bar>"
    and e: "exp (- (36 / 25) :: real) =
      (\<Sum>m<10. ((- (36 / 25)) ^ m) / fact m) + (exp t / fact 10) * (- (36 / 25)) ^ 10"
    using Maclaurin_exp_le[of "- (36 / 25)" 10] by blast
  have "t \<le> 2" using t by simp
  then have "exp t \<le> exp 2" by simp
  then have t9: "exp t \<le> 9" using exp_2_le by linarith
  have s: "(\<Sum>m<10. ((- (36 / 25 :: real)) ^ m) / fact m) = 31632022727063 / 133514404296875"
    by (simp add: lessThan_Suc eval_nat_numeral fact_numeral)
  have r: "(exp t / fact 10) * (- (36 / 25)) ^ 10 = exp t * (176319369216 / 16689300537109375)"
    by (simp add: fact_numeral power_divide)
  show ?thesis unfolding e s r using t9 exp_ge_zero[of t] by linarith
qed

lemma estimatedActiveDays_1200: "estimatedActiveDays 1200 = 427"
proof -
  have k: "1200 * SATURATION_K = 36 / 25" by (simp add: SATURATION_K_def)
  have "427 \<le> MAX_BASE_DAYS * (1 - exp (- (36 / 25))) + 1 / 2"
    using exp_144_bounds unfolding MAX_BASE_DAYS_def by simp
  moreover have "MAX_BASE_DAYS * (1 - exp (- (36 / 25))) + 1 / 2 < 427 + 1"
    using exp_144_bounds unfolding MAX_BASE_DAYS_def by simp
  ultimately have "\<lfloor>MAX_BASE_DAYS * (1 - exp (- (36 / 25))) + 1 / 2\<rfloor> = 427"
    by (simp add: floor_eq_iff)
  then show ?thesis by (simp add: estimatedActiveDays_def Math_round_def k)
qed

text \<open>
  C7. In the tuning scenario of 1200 transactions and a balance of 0.2 the volume is
  49800, as the claim says, but the saturation formula with \<open>K = 0.0012\<close> gives 427
  active days: \<open>e^-1.44\<close> lies between 0.2369 and 0.2371, so \<open>560 * (1 - e^-1.44)\<close>
  lies between 427.2 and 427.4. The 431 days of the claim are those of the tuning
  comment above the constants.
\<close>

theorem deriveStats_tuning_scenario:
  "activeDays (deriveStats 1200 (2 / 10)) = 427
   \<and> activeDays (deriveStats 1200 (2 / 10)) \<noteq> 431
   \<and> volumeUSD (deriveStats 1200 (2 / 10)) = 49800"
  by (simp add: activeDays_deriveStats estimatedActiveDays_1200)
     (simp add: deriveStats_def volumeTier_def Let_def Math_round_def)

lemma estimatedActiveDays_1: "estimatedActiveDays 1 = 1"
proof -
  have "1 + 12 / 10000 \<le> exp (12 / 10000 :: real)" by (rule exp_ge_add_one_self)
  then have "inverse (exp (12 / 10000 :: real)) \<le> inverse (1 + 12 / 10000)"
    by (intro le_imp_inverse_le) simp_all
  then have u: "exp (- (12 / 10000) :: real) \<le> 10000 / 10012" by (simp add: exp_minus)
  have l: "1 - 12 / 10000 \<le> exp (- (12 / 10000) :: real)"
    using exp_ge_add_one_self[of "- (12 / 10000)"] by simp
  have "1 \<le> MAX_BASE_DAYS * (1 - exp (- (12 / 10000))) + 1 / 2"
    using u unfolding MAX_BASE_DAYS_def by simp
  moreover have "MAX_BASE_DAYS * (1 - exp (- (12 / 10000))) + 1 / 2 < 1 + 1"
    using l unfolding MAX_BASE_DAYS_def by simp
  ultimately have "\<lfloor>MAX_BASE_DAYS * (1 - exp (- (12 / 10000))) + 1 / 2\<rfloor> = 1"
    by (simp add: floor_eq_iff)
  then show ?thesis by (simp add: estimatedActiveDays_def Math_round_def SATURATION_K_def)
qed

text \<open>
  C10. A wallet with a single transaction has \<open>floor (1 * 0.8) = 0\<close> meaningful
  transactions, so \<open>deriveStats\<close> gives it 0 protocols and the worst recency of 90 days,
  for every balance, although its transaction count and its active days (1) are positive.
\<close>

theorem deriveStats_single_transaction:
  "meaningfulTxCount 1 = 0
   \<and> protocols (deriveStats 1 b) = 0
   \<and> recencyDays (deriveStats 1 b) = 90
   \<and> 0 < activeDays (deriveStats 1 b)"
proof -
  have m: "meaningfulTxCount 1 = 0" by (simp add: meaningfulTxCount_def Math_floor_def)
  have "protocols (deriveStats 1 b) = 0" "recencyDays (deriveStats 1 b) = 90"
    by (simp_all add: deriveStats_def m Let_def split: prod.splits)
  then show ?thesis using m by (simp add: activeDays_deriveStats estimatedActiveDays_1)
qed

section \<open>The estimation orchestrator\<close>

lemma deriveStats_0:
  "deriveStats 0 0 =
     \<lparr>activeDays = 0, volumeUSD = 0, volumeMethod = ''Casual (~$15/op)'',
      protocols = 0, recencyDays = 90\<rparr>"
  by (simp add: deriveStats_def meaningfulTxCount_def Math_floor_def volumeTier_def Let_def
      estimatedActiveDays_def Math_round_def)

lemma computeScores_0:
  "computeScores 0 0 0 0 (Some 90) =
     \<lparr>txScore = 0, activeDaysScore = 0, protocolScore = 0, volumeScore = 0,
      recencyScore = 0, finalScore = 0\<rparr>"
  by (simp add: computeScores_def toFixed_parsed_def Let_def)

lemma getRewardEstimate_numeric:
  "activityScore (getRewardEstimate rpc nr) = activityScore (getRewardEstimate rpc GenerateFails)
   \<and> estimatedRewards (getRewardEstimate rpc nr) =
       estimatedRewards (getRewardEstimate rpc GenerateFails)
   \<and> stats (getRewardEstimate rpc nr) = stats (getRewardEstimate rpc GenerateFails)
   \<and> scoreBreakdown (getRewardEstimate rpc nr) =
       scoreBreakdown (getRewardEstimate rpc GenerateFails)"
  by (simp add: getRewardEstimate_def Let_def split: option.splits narrative_result.splits)

text \<open>
  C8. When the on-chain fetch fails, \<open>getOnChainData\<close> hands the orchestrator a balance
  of 0 and a transaction count of 0, and the pipeline runs on them: the result is the
  one of an empty wallet, with the statistics \<open>deriveStats(0, 0)\<close>, their scores and
  the mapped reward, which are all 0. This holds whatever the narrative call does
  afterwards; \<open>getRewardEstimate\<close> has a result for every outcome of the two calls.
\<close>

theorem getRewardEstimate_fetch_failure:
  "balance (getOnChainData RpcError) = 0 \<and> txCount (getOnChainData RpcError) = 0
   \<and> getRewardEstimate RpcError nr = getRewardEstimate (RpcData 0 0) nr
   \<and> stats (getRewardEstimate RpcError nr) =
       \<lparr>stats_balance = Some ''0.0000'', stats_txCount = 0,
        stats_activeDays = activeDays (deriveStats 0 0),
        stats_volumeUSD = volumeUSD (deriveStats 0 0),
        stats_volumeMethod = volumeMethod (deriveStats 0 0),
        stats_protocols = protocols (deriveStats 0 0)\<rparr>
   \<and> scoreBreakdown (getRewardEstimate RpcError nr) =
       computeScores 0 (of_int (activeDays (deriveStats 0 0)))
         (of_int (protocols (deriveStats 0 0))) (of_int (volumeUSD (deriveStats 0 0)))
         (Some (of_int (recencyDays (deriveStats 0 0))))
   \<and> activityScore (getRewardEstimate RpcError nr) =
       finalScore (scoreBreakdown (getRewardEstimate RpcError nr))
   \<and> estimatedRewards (getRewardEstimate RpcError nr) =
       mapScoreToRewards (activityScore (getRewardEstimate RpcError nr))
   \<and> activityScore (getRewardEstimate RpcError nr) = 0
   \<and> estimatedRewards (getRewardEstimate RpcError nr) = 0"
proof -
  have t: "toFixed 4 0 = Some ''0.0000''" by (simp add: toFixed_def upt_rec digit_char_def)
  have a: "getRewardEstimate RpcError nr = getRewardEstimate (RpcData 0 0) nr"
    by (simp add: getRewardEstimate_def getOnChainData_def formatEther_parsed_def)
  have g: "getRewardEstimate RpcError GenerateFails =
    \<lparr>activityScore = 0, estimatedRewards = 0,
     stats = \<lparr>stats_balance = Some ''0.0000'', stats_txCount = 0, stats_activeDays = 0,
       stats_volumeUSD = 0, stats_volumeMethod = ''Casual (~$15/op)'', stats_protocols = 0\<rparr>,
     scoreBreakdown = \<lparr>txScore = 0, activeDaysScore = 0, protocolScore = 0, volumeScore = 0,
       recencyScore = 0, finalScore = 0\<rparr>,
     explanation = JString ''We calculated your score based on your wallet activity pattern.'',
     suggestions = JArray [JString ''Interact with more protocols'',
                        JString ''Increase transaction volume'',
                        JString ''Maintain monthly activity'']\<rparr>"
    by (simp add: getRewardEstimate_def getOnChainData_def deriveStats_0 computeScores_0 t
        mapScoreToRewards_def Let_def)
  show ?thesis
    using a getRewardEstimate_numeric[of RpcError nr] unfolding g
    by (simp add: deriveStats_0 computeScores_0 mapScoreToRewards_def getOnChainData_def)
qed




end
